theory Spec2Isabelle
  imports Complex_Main "HOL-Library.Word"
begin

section \<open>The 3D model loader of MediaGoblin (media\_types/stl/model\_loader.py)\<close>

text \<open>
  The module is Python 2 code: \<open>map\<close> returns a list that is sliced, \<open>bits/8\<close> is an
  integer handed to \<open>read\<close>, a \<open>str\<close> is a byte string, and \<open>/\<close> between two integers
  is floor division. The embedding follows Python 2.

  Exceptions are values of \<open>error\<close>; a computation on a file object returns its result
  together with the file object it leaves behind.
\<close>

subsection \<open>Exceptions\<close>

datatype error =
    ThreeDeeParseError string  \<comment> \<open>the only exception class of the module, with its message\<close>
  | ValueError                 \<comment> \<open>raised by \<open>float\<close> on a token that is no number\<close>
  | IndexError                 \<comment> \<open>raised by indexing a sequence out of range\<close>
  | TypeError                  \<comment> \<open>raised by arithmetic on \<open>None\<close>\<close>
  | AssertionError             \<comment> \<open>raised by the \<open>assert\<close> of \<open>__num\<close>\<close>
  | StructError                \<comment> \<open>\<open>struct.error\<close>, raised by \<open>struct.unpack\<close>\<close>
  | MemoryError                \<comment> \<open>raised when \<open>range\<close> cannot allocate its list\<close>

subsection \<open>File objects\<close>

text \<open>
  A file object is a seekable byte stream: its contents and the current position.
  \<open>read\<close> returns at most the bytes that remain and never moves the position beyond them;
  \<open>seek\<close> is absolute and may go beyond the end.
\<close>

record fileob =
  data :: string
  pos :: nat

definition fread :: "nat \<Rightarrow> fileob \<Rightarrow> string \<times> fileob" where
  "fread n f =
     (let bs = take n (drop (pos f) (data f))
      in (bs, f\<lparr>pos := pos f + length bs\<rparr>))"

definition fseek :: "nat \<Rightarrow> fileob \<Rightarrow> fileob" where
  "fseek n f = f\<lparr>pos := n\<rparr>"

text \<open>
  Iterating over a file object yields its lines from the current position on; a line ends
  with its newline byte, the last line may lack one, and no line is empty.
\<close>

fun file_lines :: "string \<Rightarrow> string list" where
  "file_lines [] = []"
| "file_lines (c # cs) =
     (if c = CHR 0x0A then [c] # file_lines cs
      else (case file_lines cs of [] \<Rightarrow> [[c]] | l # ls \<Rightarrow> (c # l) # ls))"

subsection \<open>The base class \<open>ThreeDee\<close>\<close>

text \<open>
  The fields of an instance. A vector is a tuple, modelled as a list since the OBJ parser
  can produce tuples of fewer than three components. \<open>average\<close>, \<open>min\<close> and \<open>max\<close> are
  Python lists of three entries, the latter two starting as \<open>None\<close>.
\<close>

record 'a ThreeDee =
  verts :: "'a list list"
  average :: "'a list"
  min_xyz :: "'a option list"
  max_xyz :: "'a option list"
  width :: 'a
  depth :: 'a
  height :: 'a

text \<open>
  The body of the inner loop of \<open>__init__\<close> for one axis \<open>i\<close>:
  \<^verbatim>\<open>
    num = vector[i]
    self.average[i] += num
    if not self.min[i]:
        self.min[i] = num
        self.max[i] = num
    else:
        if self.min[i] > num: self.min[i] = num
        if self.max[i] < num: self.max[i] = num
  \<close>
  \<open>not self.min[i]\<close> is true when the entry is \<open>None\<close> and when it is the number zero.
  In Python 2 \<open>None\<close> is smaller than every number, which decides \<open>self.max[i] < num\<close>
  for an entry that is still \<open>None\<close>.
\<close>

definition set_min_max :: "nat \<Rightarrow> 'a \<Rightarrow> 'a ThreeDee \<Rightarrow> 'a ThreeDee" where
  "set_min_max i num self =
     self\<lparr>min_xyz := (min_xyz self)[i := Some num], max_xyz := (max_xyz self)[i := Some num]\<rparr>"

definition lower_min :: "nat \<Rightarrow> 'a::linorder \<Rightarrow> 'a \<Rightarrow> 'a ThreeDee \<Rightarrow> 'a ThreeDee" where
  "lower_min i m num self =
     (if m > num then self\<lparr>min_xyz := (min_xyz self)[i := Some num]\<rparr> else self)"

definition raise_max :: "nat \<Rightarrow> 'a::linorder \<Rightarrow> 'a ThreeDee \<Rightarrow> 'a ThreeDee" where
  "raise_max i num self =
     (case max_xyz self ! i of
        None \<Rightarrow> self\<lparr>max_xyz := (max_xyz self)[i := Some num]\<rparr>
      | Some m \<Rightarrow> if m < num then self\<lparr>max_xyz := (max_xyz self)[i := Some num]\<rparr> else self)"

definition axis_step ::
  "'a::{linordered_idom} list \<Rightarrow> 'a ThreeDee \<Rightarrow> nat \<Rightarrow> error + 'a ThreeDee" where
  "axis_step vector self i =
     (if length vector \<le> i then Inl IndexError
      else
        let num = vector ! i;
            self1 = self\<lparr>average := (average self)[i := average self ! i + num]\<rparr>
        in case min_xyz self1 ! i of
             None \<Rightarrow> Inr (set_min_max i num self1)
           | Some m \<Rightarrow>
               if m = 0 then Inr (set_min_max i num self1)
               else Inr (raise_max i num (lower_min i m num self1)))"

fun for_axes ::
  "'a::{linordered_idom} list \<Rightarrow> nat list \<Rightarrow> 'a ThreeDee \<Rightarrow> error + 'a ThreeDee" where
  "for_axes vector [] self = Inr self"
| "for_axes vector (i # rest) self =
     (case axis_step vector self i of
        Inl e \<Rightarrow> Inl e
      | Inr self1 \<Rightarrow> for_axes vector rest self1)"

fun for_verts ::
  "'a::{linordered_idom} list list \<Rightarrow> 'a ThreeDee \<Rightarrow> error + 'a ThreeDee" where
  "for_verts [] self = Inr self"
| "for_verts (vector # rest) self =
     (case for_axes vector [0, 1, 2] self of
        Inl e \<Rightarrow> Inl e
      | Inr self1 \<Rightarrow> for_verts rest self1)"

text \<open>\<open>abs(self.min[i] - self.max[i])\<close>; the subtraction raises on \<open>None\<close>.\<close>

definition extent :: "'a::{linordered_idom} option \<Rightarrow> 'a option \<Rightarrow> error + 'a" where
  "extent lo hi =
     (case lo of
        None \<Rightarrow> Inl TypeError
      | Some a \<Rightarrow> (case hi of None \<Rightarrow> Inl TypeError | Some b \<Rightarrow> Inr \<bar>a - b\<bar>))"

text \<open>
  \<open>__init__\<close> after \<open>self.load(fileob)\<close> has filled \<open>self.verts\<close>. The division
  \<open>self.average[i] /= len(self.verts)\<close> is Python 2's: true division on floats, floor
  division on integers; both are \<open>divide\<close> of the coordinate type. The list of vertices is
  not empty there, so the divisor is not zero.
\<close>

definition statistics ::
  "'a::{linordered_idom, divide} list list \<Rightarrow> error + 'a ThreeDee" where
  "statistics vs =
     (let self = \<lparr>verts = vs, average = [0, 0, 0], min_xyz = [None, None, None],
                  max_xyz = [None, None, None], width = 0, depth = 0, height = 0\<rparr>
      in if length (verts self) = 0 then Inl (ThreeDeeParseError ''Empyt model.'')
         else
           case for_verts (verts self) self of
             Inl e \<Rightarrow> Inl e
           | Inr self1 \<Rightarrow>
               let self2 = self1\<lparr>average :=
                      map (\<lambda>a. a div of_nat (length (verts self1))) (average self1)\<rparr>
               in case extent (min_xyz self2 ! 0) (max_xyz self2 ! 0) of
                    Inl e \<Rightarrow> Inl e
                  | Inr w \<Rightarrow>
                 (case extent (min_xyz self2 ! 1) (max_xyz self2 ! 1) of
                    Inl e \<Rightarrow> Inl e
                  | Inr d \<Rightarrow>
                 (case extent (min_xyz self2 ! 2) (max_xyz self2 ! 2) of
                    Inl e \<Rightarrow> Inl e
                  | Inr h \<Rightarrow> Inr (self2\<lparr>width := w, depth := d, height := h\<rparr>))))"

text \<open>
  \<open>ThreeDee.__init__(self, fileob)\<close>: the subclass's \<open>load\<close> is a parameter. An exception
  of \<open>load\<close> leaves \<open>__init__\<close> at once.
\<close>

definition ThreeDee_init ::
  "(fileob \<Rightarrow> (error + 'a list list) \<times> fileob) \<Rightarrow> fileob
     \<Rightarrow> (error + 'a::{linordered_idom, divide} ThreeDee) \<times> fileob" where
  "ThreeDee_init load fileob =
     (case load fileob of
        (Inl e, f1) \<Rightarrow> (Inl e, f1)
      | (Inr vs, f1) \<Rightarrow> (statistics vs, f1))"

subsection \<open>String operations of Python used by the OBJ parser\<close>

text \<open>The bytes \<open>str.strip()\<close> removes: space, tab, newline, vertical tab, form feed, return.\<close>

definition is_space :: "char \<Rightarrow> bool" where
  "is_space c = (c = CHR '' '' \<or> c = CHR 0x09 \<or> c = CHR 0x0A \<or> c = CHR 0x0B
                 \<or> c = CHR 0x0C \<or> c = CHR 0x0D)"

definition strip :: "string \<Rightarrow> string" where
  "strip s = rev (dropWhile is_space (rev (dropWhile is_space s)))"

text \<open>
  \<open>s.split(sep)\<close> for a separator of one byte: every occurrence separates, so two
  separators in a row enclose an empty token, and the result is never empty.
\<close>

fun split :: "char \<Rightarrow> string \<Rightarrow> string list" where
  "split sep [] = [[]]"
| "split sep (c # cs) =
     (if c = sep then [] # split sep cs
      else (case split sep cs of [] \<Rightarrow> [[c]] | t # ts \<Rightarrow> (c # t) # ts))"

text \<open>
  \<open>float\<close> is a builtin of Python; the parser takes it as a parameter
  \<open>pyfloat :: string \<Rightarrow> 'a option\<close>, \<open>None\<close> standing for \<open>ValueError\<close>.
  \<open>map(float, tokens)\<close> converts every token, from left to right, and raises at the first
  token that is no number.
\<close>

fun map_float :: "(string \<Rightarrow> 'a option) \<Rightarrow> string list \<Rightarrow> error + 'a list" where
  "map_float pyfloat [] = Inr []"
| "map_float pyfloat (t # ts) =
     (case pyfloat t of
        None \<Rightarrow> Inl ValueError
      | Some x \<Rightarrow>
          (case map_float pyfloat ts of
             Inl e \<Rightarrow> Inl e
           | Inr xs \<Rightarrow> Inr (x # xs)))"

text \<open>
  \<open>py_float\<close> is \<open>float\<close> on decimal literals: surrounding white space, a sign, digits with
  an optional fraction, an optional exponent. Its value is the rational number the
  literal denotes, where Python rounds to the nearest binary64 number; the literals
  \<open>inf\<close> and \<open>nan\<close>, which \<open>float\<close> accepts too, have no rational value and are outside
  this function, which only serves to run the parser on concrete decimal texts.
\<close>

definition is_digit :: "char \<Rightarrow> bool" where
  "is_digit c = (48 \<le> (of_char c :: nat) \<and> (of_char c :: nat) \<le> 57)"

definition digits_value :: "string \<Rightarrow> nat" where
  "digits_value ds = foldl (\<lambda>a c. 10 * a + (of_char c - 48)) 0 ds"

definition take_sign :: "string \<Rightarrow> bool \<times> string" where
  "take_sign s =
     (case s of
        [] \<Rightarrow> (False, [])
      | c # cs \<Rightarrow> if c = CHR ''-'' then (True, cs)
                  else if c = CHR ''+'' then (False, cs) else (False, s))"

definition exponent :: "string \<Rightarrow> int option" where
  "exponent s =
     (case s of
        [] \<Rightarrow> Some 0
      | c # cs \<Rightarrow>
          if c = CHR ''e'' \<or> c = CHR ''E'' then
            (let (neg, ds) = take_sign cs
             in if ds = [] then None
                else if dropWhile is_digit ds = [] then
                  Some (if neg then - int (digits_value ds) else int (digits_value ds))
                else None)
          else None)"

definition py_float :: "string \<Rightarrow> rat option" where
  "py_float tok =
     (let (neg, s) = take_sign (strip tok);
          ip = takeWhile is_digit s;
          r1 = dropWhile is_digit s;
          fp = (case r1 of [] \<Rightarrow> [] | c # cs \<Rightarrow> if c = CHR ''.'' then takeWhile is_digit cs else []);
          r2 = (case r1 of [] \<Rightarrow> [] | c # cs \<Rightarrow> if c = CHR ''.'' then dropWhile is_digit cs else r1)
      in if ip = [] \<and> fp = [] then None
         else
           case exponent r2 of
             None \<Rightarrow> None
           | Some e \<Rightarrow>
               let m = of_nat (digits_value (ip @ fp)) / 10 ^ length fp;
                   v = (if 0 \<le> e then m * 10 ^ nat e else m / 10 ^ nat (- e))
               in Some (if neg then - v else v))"

subsection \<open>\<open>ObjModel\<close>\<close>

text \<open>
  \<^verbatim>\<open>
    def __vector(self, line, expected=3):
        nums = map(float, line.strip().split(" ")[1:])
        return tuple(nums[:expected])
  \<close>
\<close>

definition ObjModel_vector ::
  "(string \<Rightarrow> 'a option) \<Rightarrow> string \<Rightarrow> nat \<Rightarrow> error + 'a list" where
  "ObjModel_vector pyfloat line expected =
     (case map_float pyfloat (tl (split CHR '' '' (strip line))) of
        Inl e \<Rightarrow> Inl e
      | Inr nums \<Rightarrow> Inr (take expected nums))"

text \<open>
  \<^verbatim>\<open>
    def load(self, fileob):
        for line in fileob:
            if line[0] == "v":
                self.verts.append(self.__vector(line))
  \<close>
  The loop over the lines that remain; every line read moves the position of the file
  object beyond it.
\<close>

fun ObjModel_lines ::
  "(string \<Rightarrow> 'a option) \<Rightarrow> string list \<Rightarrow> 'a list list \<Rightarrow> fileob
     \<Rightarrow> (error + 'a list list) \<times> fileob" where
  "ObjModel_lines pyfloat [] vs f = (Inr vs, f)"
| "ObjModel_lines pyfloat (line # rest) vs f =
     (let f1 = f\<lparr>pos := pos f + length line\<rparr>
      in case line of
           [] \<Rightarrow> (Inl IndexError, f1)
         | c # _ \<Rightarrow>
             if c = CHR ''v'' then
               (case ObjModel_vector pyfloat line 3 of
                  Inl e \<Rightarrow> (Inl e, f1)
                | Inr v \<Rightarrow> ObjModel_lines pyfloat rest (vs @ [v]) f1)
             else ObjModel_lines pyfloat rest vs f1)"

definition ObjModel_load ::
  "(string \<Rightarrow> 'a option) \<Rightarrow> fileob \<Rightarrow> (error + 'a list list) \<times> fileob" where
  "ObjModel_load pyfloat fileob =
     ObjModel_lines pyfloat (file_lines (drop (pos fileob) (data fileob))) [] fileob"

definition ObjModel ::
  "(string \<Rightarrow> 'a option) \<Rightarrow> fileob
     \<Rightarrow> (error + 'a::{linordered_idom, divide} ThreeDee) \<times> fileob" where
  "ObjModel pyfloat fileob = ThreeDee_init (ObjModel_load pyfloat) fileob"

subsection \<open>\<open>BinaryStlModel\<close>\<close>

text \<open>
  \<open>struct.unpack(form, bytes)[0]\<close> for the three formats the module uses, all little-endian:
  \<open><I\<close> an unsigned and \<open><i\<close> a signed integer of 32 bits, \<open><H\<close> an unsigned integer of
  16 bits. It raises \<open>struct.error\<close> unless it is given exactly as many bytes as the format
  has.
\<close>

definition le_value :: "string \<Rightarrow> nat" where
  "le_value bs = foldr (\<lambda>c a. of_char c + 256 * a) bs 0"

definition struct_unpack :: "string \<Rightarrow> string \<Rightarrow> error + int" where
  "struct_unpack form bs =
     (if form = ''<I'' then
        (if length bs = 4 then Inr (int (le_value bs)) else Inl StructError)
      else if form = ''<i'' then
        (if length bs = 4 then Inr (sint (word_of_nat (le_value bs) :: 32 word))
         else Inl StructError)
      else if form = ''<H'' then
        (if length bs = 2 then Inr (int (le_value bs)) else Inl StructError)
      else Inl StructError)"

text \<open>
  \<^verbatim>\<open>
    def __num(self, fileob, hint):
        assert hint == "uint" or hint == "real" or hint == "short"
        ...
        return struct.unpack(form, fileob.read(bits/8))[0]
  \<close>
\<close>

definition BinaryStlModel_num :: "fileob \<Rightarrow> string \<Rightarrow> (error + int) \<times> fileob" where
  "BinaryStlModel_num fileob hint =
     (if hint = ''uint'' \<or> hint = ''real'' \<or> hint = ''short'' then
        let (form, bits) =
              (if hint = ''uint'' then (''<I'', 32 :: nat)
               else if hint = ''real'' then (''<i'', 32)
               else (''<H'', 16));
            (bs, f1) = fread (bits div 8) fileob
        in (struct_unpack form bs, f1)
      else (Inl AssertionError, fileob))"

text \<open>
  Sequencing of two computations on the file object: an exception of the first ends both.
\<close>

definition then_do ::
  "(fileob \<Rightarrow> (error + 'a) \<times> fileob) \<Rightarrow> ('a \<Rightarrow> fileob \<Rightarrow> (error + 'b) \<times> fileob)
     \<Rightarrow> fileob \<Rightarrow> (error + 'b) \<times> fileob" where
  "then_do m k f = (case m f of (Inl e, f1) \<Rightarrow> (Inl e, f1) | (Inr x, f1) \<Rightarrow> k x f1)"

text \<open>\<open>[self.__num(fileob, "real") for n in range(k)]\<close>\<close>

fun read_reals :: "nat \<Rightarrow> fileob \<Rightarrow> (error + int list) \<times> fileob" where
  "read_reals 0 f = (Inr [], f)"
| "read_reals (Suc k) f =
     then_do (\<lambda>f. BinaryStlModel_num f ''real'')
       (\<lambda>x. then_do (read_reals k) (\<lambda>xs f2. (Inr (x # xs), f2))) f"

definition BinaryStlModel_vector :: "fileob \<Rightarrow> (error + int list) \<times> fileob" where
  "BinaryStlModel_vector fileob = read_reals 3 fileob"

text \<open>\<open>for v in range(k): self.verts.append(self.__vector(fileob))\<close>\<close>

fun append_vectors :: "nat \<Rightarrow> int list list \<Rightarrow> fileob \<Rightarrow> (error + int list list) \<times> fileob" where
  "append_vectors 0 vs f = (Inr vs, f)"
| "append_vectors (Suc k) vs f =
     then_do BinaryStlModel_vector (\<lambda>v f1. append_vectors k (vs @ [v]) f1) f"

text \<open>
  The loop over the triangles: the normal vector is read and dropped, three vertices are
  appended, the attribute byte count is read and dropped.
\<close>

fun triangles :: "nat \<Rightarrow> int list list \<Rightarrow> fileob \<Rightarrow> (error + int list list) \<times> fileob" where
  "triangles 0 vs f = (Inr vs, f)"
| "triangles (Suc n) vs f =
     then_do BinaryStlModel_vector
       (\<lambda>_. then_do (append_vectors 3 vs)
         (\<lambda>vs1. then_do (\<lambda>f. BinaryStlModel_num f ''short'')
           (\<lambda>_ f3. triangles n vs1 f3))) f"

text \<open>
  \<^verbatim>\<open>
    def load(self, fileob):
        fileob.seek(80) # skip the header
        triangle_count = self.__num(fileob, "uint")
        for i in range(triangle_count):
            ...
  \<close>
  In Python 2 \<open>range\<close> builds the list of its values before the loop starts and raises
  \<open>MemoryError\<close> when it cannot; \<open>cap\<close> is the longest list it can build.
\<close>

definition BinaryStlModel_load :: "nat \<Rightarrow> fileob \<Rightarrow> (error + int list list) \<times> fileob" where
  "BinaryStlModel_load cap fileob =
     then_do (\<lambda>f. BinaryStlModel_num f ''uint'')
       (\<lambda>triangle_count f1.
          if cap < nat triangle_count then (Inl MemoryError, f1)
          else triangles (nat triangle_count) [] f1)
       (fseek 80 fileob)"

definition BinaryStlModel :: "nat \<Rightarrow> fileob \<Rightarrow> (error + int ThreeDee) \<times> fileob" where
  "BinaryStlModel cap fileob = ThreeDee_init (BinaryStlModel_load cap) fileob"

subsection \<open>\<open>auto_detect\<close>\<close>

text \<open>What \<open>auto_detect\<close> returns: an instance of one of the two parser classes.\<close>

datatype 'a model = Obj "'a ThreeDee" | BinaryStl "int ThreeDee"

text \<open>
  The hint is \<open>None\<close> or a string; \<open>not hint\<close> holds for \<open>None\<close> and for the empty string.
\<close>

definition falsy :: "string option \<Rightarrow> bool" where
  "falsy hint = (hint = None \<or> hint = Some [])"

text \<open>
  A \<open>try\<close> block around a constructor: the instance is returned (\<open>Some\<close>), a caught
  exception is passed over (\<open>None\<close>), any other exception leaves \<open>auto_detect\<close>.
  \<^verbatim>\<open>
        try:
            return ObjModel(fileob)
        except ThreeDeeParseError:
            pass
  \<close>
\<close>

definition try_ObjModel ::
  "(string \<Rightarrow> 'a option) \<Rightarrow> fileob
     \<Rightarrow> (error + 'a::{linordered_idom, divide} model option) \<times> fileob" where
  "try_ObjModel pyfloat f =
     (case ObjModel pyfloat f of
        (Inr m, f1) \<Rightarrow> (Inr (Some (Obj m)), f1)
      | (Inl (ThreeDeeParseError msg), f1) \<Rightarrow> (Inr None, f1)
      | (Inl e, f1) \<Rightarrow> (Inl e, f1))"

text \<open>
  \<^verbatim>\<open>
        try:
            return BinaryStlModel(fileob)
        except ThreeDeeParseError:
            pass
        except MemoryError:
            pass
  \<close>
\<close>

definition try_BinaryStlModel ::
  "nat \<Rightarrow> fileob \<Rightarrow> (error + 'a model option) \<times> fileob" where
  "try_BinaryStlModel cap f =
     (case BinaryStlModel cap f of
        (Inr m, f1) \<Rightarrow> (Inr (Some (BinaryStl m)), f1)
      | (Inl (ThreeDeeParseError msg), f1) \<Rightarrow> (Inr None, f1)
      | (Inl MemoryError, f1) \<Rightarrow> (Inr None, f1)
      | (Inl e, f1) \<Rightarrow> (Inl e, f1))"

text \<open>The body of \<open>if hint == "stl" or not hint\<close>: the two \<open>try\<close> blocks in a row.\<close>

definition stl_candidates ::
  "(string \<Rightarrow> 'a option) \<Rightarrow> nat \<Rightarrow> fileob
     \<Rightarrow> (error + 'a::{linordered_idom, divide} model option) \<times> fileob" where
  "stl_candidates pyfloat cap f =
     (case try_ObjModel pyfloat f of
        (Inl e, f1) \<Rightarrow> (Inl e, f1)
      | (Inr (Some m), f1) \<Rightarrow> (Inr (Some m), f1)
      | (Inr None, f1) \<Rightarrow> try_BinaryStlModel cap f1)"

definition auto_detect ::
  "(string \<Rightarrow> 'a option) \<Rightarrow> nat \<Rightarrow> fileob \<Rightarrow> string option
     \<Rightarrow> (error + 'a::{linordered_idom, divide} model) \<times> fileob" where
  "auto_detect pyfloat cap fileob hint =
     (case (if hint = Some ''obj'' \<or> falsy hint then try_ObjModel pyfloat fileob
            else (Inr None, fileob)) of
        (Inl e, f1) \<Rightarrow> (Inl e, f1)
      | (Inr (Some m), f1) \<Rightarrow> (Inr m, f1)
      | (Inr None, f1) \<Rightarrow>
          (case (if hint = Some ''stl'' \<or> falsy hint then stl_candidates pyfloat cap f1
                 else (Inr None, f1)) of
             (Inl e, f2) \<Rightarrow> (Inl e, f2)
           | (Inr (Some m), f2) \<Rightarrow> (Inr m, f2)
           | (Inr None, f2) \<Rightarrow>
               (Inl (ThreeDeeParseError ''Could not successfully parse the model :(''), f2)))"

subsection \<open>The reading of a "real" field that the specification asks for\<close>

text \<open>
  This definition follows the specification, not the source: the value of four bytes read
  as a little-endian IEEE-754 binary32 number (sign, eight bits of exponent, 23 bits of
  fraction). Infinities and NaN have no rational value and give \<open>None\<close>.
\<close>

definition ieee754_binary32 :: "string \<Rightarrow> rat option" where
  "ieee754_binary32 bs =
     (let bits = le_value bs;
          s = bits div 2 ^ 31;
          e = (bits div 2 ^ 23) mod 256;
          m = bits mod 2 ^ 23;
          mag = (if e = 0 then of_nat m / 2 ^ 149
                 else if 150 \<le> e then of_nat (2 ^ 23 + m) * 2 ^ (e - 150)
                 else of_nat (2 ^ 23 + m) / 2 ^ (150 - e))
      in if length bs = 4 then (if e = 255 then None else Some (if s = 1 then - mag else mag))
         else None)"

subsection \<open>Classes of exceptions\<close>

text \<open>\<open>except ThreeDeeParseError\<close> catches the instances of that class, whatever their message.\<close>

definition is_parse_error :: "error \<Rightarrow> bool" where
  "is_parse_error e = (case e of ThreeDeeParseError msg \<Rightarrow> True | _ \<Rightarrow> False)"

section \<open>Properties\<close>

subsection \<open>Facts about the lines of a file and the OBJ loop\<close>

lemma concat_file_lines: "concat (file_lines s) = s"
  by (induction s) (auto split: list.splits)

lemma file_lines_nonempty: "l \<in> set (file_lines s) \<Longrightarrow> l \<noteq> []"
  by (induction s arbitrary: l) (auto split: list.splits if_splits)

lemma map_float_error: "map_float pf ts = Inl e \<Longrightarrow> e = ValueError"
  by (induction ts arbitrary: e) (auto split: option.splits sum.splits)

lemma ObjModel_vector_error: "ObjModel_vector pf line k = Inl e \<Longrightarrow> e = ValueError"
  by (auto simp: ObjModel_vector_def split: sum.splits dest: map_float_error)

lemma ObjModel_lines_error:
  "ObjModel_lines pf ls vs f = (Inl e, f1) \<Longrightarrow> e = ValueError \<or> e = IndexError"
proof (induction ls arbitrary: vs f)
  case Nil
  then show ?case by simp
next
  case (Cons line rest)
  then show ?case
    by (auto simp: Let_def split: list.splits if_splits sum.splits dest: ObjModel_vector_error)
qed

lemma ObjModel_lines_file:
  "ObjModel_lines pf ls vs f = (Inr vs1, f1) \<Longrightarrow>
     f1 = f\<lparr>pos := pos f + length (concat ls)\<rparr>"
proof (induction ls arbitrary: vs f)
  case Nil
  then show ?case by simp
next
  case (Cons line rest)
  then show ?case
    by (fastforce simp: Let_def add.assoc split: list.splits if_splits sum.splits)
qed

lemma ObjModel_lines_verts:
  "ObjModel_lines pf ls vs f = (Inr vs1, f1) \<Longrightarrow>
     map Inr vs1 = map Inr vs @ map (\<lambda>l. ObjModel_vector pf l 3) (filter (\<lambda>l. take 1 l = ''v'') ls)"
proof (induction ls arbitrary: vs f)
  case Nil
  then show ?case by simp
next
  case (Cons line rest)
  then show ?case
    by (fastforce simp: Let_def split: list.splits if_splits sum.splits)
qed


lemma axis_step_error: "axis_step v s i = Inl e \<Longrightarrow> e = IndexError"
  by (auto simp: axis_step_def Let_def split: if_splits option.splits)

lemma axis_step_short: "length v \<le> i \<Longrightarrow> axis_step v s i = Inl IndexError"
  by (simp add: axis_step_def)

lemma axis_step_ok: "i < length v \<Longrightarrow> \<exists>s1. axis_step v s i = Inr s1"
  by (auto simp: axis_step_def Let_def split: option.splits)

lemma for_axes_error: "for_axes v is s = Inl e \<Longrightarrow> e = IndexError"
  by (induction "is" arbitrary: s) (auto split: sum.splits dest: axis_step_error)

lemma for_axes_short:
  "\<exists>i\<in>set is. length v \<le> i \<Longrightarrow> for_axes v is s = Inl IndexError"
proof (induction "is" arbitrary: s)
  case Nil
  then show ?case by simp
next
  case (Cons i rest)
  show ?case
  proof (cases "length v \<le> i")
    case True
    then show ?thesis by (simp add: axis_step_short)
  next
    case False
    then obtain s1 where "axis_step v s i = Inr s1"
      using axis_step_ok [of i v s] by auto
    moreover from False Cons.prems have "\<exists>i\<in>set rest. length v \<le> i" by auto
    ultimately show ?thesis using Cons.IH by simp
  qed
qed

lemma for_axes_full:
  "\<forall>i\<in>set is. i < length v \<Longrightarrow> \<exists>s1. for_axes v is s = Inr s1"
proof (induction "is" arbitrary: s)
  case Nil
  then show ?case by simp
next
  case (Cons i rest)
  then obtain s1 where "axis_step v s i = Inr s1"
    using axis_step_ok [of i v s] by auto
  then show ?case using Cons by simp
qed

lemma for_verts_error: "for_verts vs s = Inl e \<Longrightarrow> e = IndexError"
  by (induction vs arbitrary: s)
     (auto simp del: for_axes.simps split: sum.splits dest: for_axes_error)

lemma for_verts_short:
  "\<exists>v\<in>set vs. length v < 3 \<Longrightarrow> for_verts vs s = Inl IndexError"
proof (induction vs arbitrary: s)
  case Nil
  then show ?case by simp
next
  case (Cons v rest)
  show ?case
  proof (cases "length v < 3")
    case True
    then have "\<exists>i\<in>set [0, 1, 2]. length v \<le> i" by auto
    then have "for_axes v [0, 1, 2] s = Inl IndexError" by (rule for_axes_short)
    then show ?thesis by (simp del: for_axes.simps)
  next
    case False
    then have "\<forall>i\<in>set [0, 1, 2]. i < length v" by auto
    then obtain s1 where "for_axes v [0, 1, 2] s = Inr s1"
      using for_axes_full by blast
    moreover from False Cons.prems have "\<exists>v\<in>set rest. length v < 3" by auto
    ultimately show ?thesis using Cons.IH by (simp del: for_axes.simps)
  qed
qed

lemma for_verts_full:
  "\<forall>v\<in>set vs. 3 \<le> length v \<Longrightarrow> \<exists>s1. for_verts vs s = Inr s1"
proof (induction vs arbitrary: s)
  case Nil
  then show ?case by simp
next
  case (Cons v rest)
  then have "\<forall>i\<in>set [0, 1, 2]. i < length v" by auto
  then obtain s1 where "for_axes v [0, 1, 2] s = Inr s1"
    using for_axes_full by blast
  then show ?case using Cons by (simp del: for_axes.simps)
qed

lemma extent_error: "extent a b = Inl e \<Longrightarrow> e = TypeError"
  by (auto simp: extent_def split: option.splits)

lemma statistics_empty: "statistics [] = Inl (ThreeDeeParseError ''Empyt model.'')"
  by (simp add: statistics_def)

lemma statistics_short:
  "\<exists>v\<in>set vs. length v < 3 \<Longrightarrow> statistics vs = Inl IndexError"
  by (cases "vs = []") (auto simp: statistics_def Let_def for_verts_short)

lemma statistics_error:
  assumes "statistics vs = Inl e"
  shows "(e = ThreeDeeParseError ''Empyt model.'' \<and> vs = [])
         \<or> (e = IndexError \<and> (\<exists>v\<in>set vs. length v < 3)) \<or> e = TypeError"
proof (cases "vs = []")
  case True
  with assms show ?thesis by (simp add: statistics_empty)
next
  case False
  show ?thesis
  proof (cases "\<exists>v\<in>set vs. length v < 3")
    case True
    with assms show ?thesis by (simp add: statistics_short)
  next
    case False
    then have "\<forall>v\<in>set vs. 3 \<le> length v" by auto
    then obtain s1 where "for_verts vs \<lparr>verts = vs, average = [0, 0, 0],
        min_xyz = [None, None, None], max_xyz = [None, None, None],
        width = 0, depth = 0, height = 0\<rparr> = Inr s1"
      using for_verts_full by blast
    with assms \<open>vs \<noteq> []\<close> have "e = TypeError"
      by (auto simp: statistics_def Let_def split: sum.splits dest: extent_error)
    then show ?thesis by simp
  qed
qed

lemma ObjModel_load_error:
  "ObjModel_load pf f = (Inl e, f1) \<Longrightarrow> e = ValueError \<or> e = IndexError"
  unfolding ObjModel_load_def by (rule ObjModel_lines_error)

lemma ObjModel_load_file:
  assumes "ObjModel_load pf f = (Inr vs, f1)"
  shows "f1 = f\<lparr>pos := pos f + length (drop (pos f) (data f))\<rparr>"
  using ObjModel_lines_file [OF assms [unfolded ObjModel_load_def]]
  by (simp add: concat_file_lines)

lemma ObjModel_load_at_end:
  assumes "length (data f) \<le> pos f"
  shows "ObjModel_load pf f = (Inr [], f)"
  using assms by (simp add: ObjModel_load_def)

lemma ObjModel_parse_error:
  assumes "ObjModel pf f = (Inl (ThreeDeeParseError msg), f1)"
  shows "ObjModel_load pf f = (Inr [], f1) \<and> msg = ''Empyt model.''"
proof (cases "ObjModel_load pf f")
  case (Pair r f2)
  show ?thesis
  proof (cases r)
    case (Inl e)
    with Pair assms have "e = ThreeDeeParseError msg"
      by (simp add: ObjModel_def ThreeDee_init_def)
    moreover from Pair Inl have "e = ValueError \<or> e = IndexError"
      using ObjModel_load_error by blast
    ultimately show ?thesis by auto
  next
    case (Inr vs)
    with Pair assms have s: "statistics vs = Inl (ThreeDeeParseError msg)" and f: "f2 = f1"
      by (simp_all add: ObjModel_def ThreeDee_init_def)
    from statistics_error [OF s] have "vs = [] \<and> msg = ''Empyt model.''" by auto
    with Pair Inr f show ?thesis by simp
  qed
qed

lemma ObjModel_at_end:
  assumes "length (data f) \<le> pos f"
  shows "ObjModel pf f = (Inl (ThreeDeeParseError ''Empyt model.''), f)"
  by (simp add: ObjModel_def ThreeDee_init_def statistics_empty ObjModel_load_at_end [OF assms])

lemma BinaryStlModel_seeks:
  "BinaryStlModel cap (f\<lparr>pos := p\<rparr>) = BinaryStlModel cap f"
  by (simp add: BinaryStlModel_def ThreeDee_init_def BinaryStlModel_load_def fseek_def)

lemma ObjModel_fails_again:
  assumes "ObjModel pf f = (Inl (ThreeDeeParseError msg), f1)"
  shows "f1 = f\<lparr>pos := pos f + length (drop (pos f) (data f))\<rparr>"
    and "ObjModel pf f1 = (Inl (ThreeDeeParseError ''Empyt model.''), f1)"
proof -
  from ObjModel_parse_error [OF assms] have l: "ObjModel_load pf f = (Inr [], f1)" by simp
  show f1: "f1 = f\<lparr>pos := pos f + length (drop (pos f) (data f))\<rparr>"
    by (rule ObjModel_load_file [OF l])
  then have "length (data f1) \<le> pos f1" by simp
  then show "ObjModel pf f1 = (Inl (ThreeDeeParseError ''Empyt model.''), f1)"
    by (rule ObjModel_at_end)
qed

lemma ObjModel_lines_skip:
  "\<forall>l\<in>set ls. l \<noteq> [] \<and> take 1 l \<noteq> ''v'' \<Longrightarrow>
     ObjModel_lines pf ls vs f = (Inr vs, f\<lparr>pos := pos f + length (concat ls)\<rparr>)"
proof (induction ls arbitrary: f)
  case Nil
  then show ?case by simp
next
  case (Cons line rest)
  then show ?case by (auto simp: Let_def add.assoc split: list.splits)
qed

lemma ObjModel_load_verts:
  assumes "ObjModel_load pf f = (Inr vs, f1)"
  shows "map Inr vs = map (\<lambda>l. ObjModel_vector pf l 3)
           (filter (\<lambda>l. take 1 l = ''v'') (file_lines (drop (pos f) (data f))))"
  using ObjModel_lines_verts [OF assms [unfolded ObjModel_load_def]] by simp

lemma map_float_all:
  "\<forall>t\<in>set ts. pf t \<noteq> None \<Longrightarrow> map_float pf ts = Inr (map (\<lambda>t. the (pf t)) ts)"
  by (induction ts) auto

lemma map_float_some_bad:
  "\<exists>t\<in>set ts. pf t = None \<Longrightarrow> map_float pf ts = Inl ValueError"
proof (induction ts)
  case Nil
  then show ?case by simp
next
  case (Cons t ts)
  show ?case
  proof (cases "pf t")
    case None
    then show ?thesis by simp
  next
    case (Some x)
    with Cons.prems have "\<exists>t\<in>set ts. pf t = None" by auto
    with Cons.IH Some show ?thesis by simp
  qed
qed

lemma ObjModel_vector_all:
  "\<forall>t\<in>set (tl (split CHR '' '' (strip line))). pf t \<noteq> None \<Longrightarrow>
     ObjModel_vector pf line k =
       Inr (take k (map (\<lambda>t. the (pf t)) (tl (split CHR '' '' (strip line)))))"
  by (simp add: ObjModel_vector_def map_float_all)

lemma ObjModel_vector_some_bad:
  "\<exists>t\<in>set (tl (split CHR '' '' (strip line))). pf t = None \<Longrightarrow>
     ObjModel_vector pf line k = Inl ValueError"
  by (simp add: ObjModel_vector_def map_float_some_bad)

lemma ObjModel_lines_all_parse:
  assumes "\<forall>l\<in>set ls. l \<noteq> [] \<and>
             (take 1 l = ''v'' \<longrightarrow>
                (\<forall>t\<in>set (tl (split CHR '' '' (strip l))). pf t \<noteq> None))"
  shows "ObjModel_lines pf ls vs f =
           (Inr (vs @ map (\<lambda>l. take 3 (map (\<lambda>t. the (pf t)) (tl (split CHR '' '' (strip l)))))
                        (filter (\<lambda>l. take 1 l = ''v'') ls)),
            f\<lparr>pos := pos f + length (concat ls)\<rparr>)"
  using assms
proof (induction ls arbitrary: vs f)
  case Nil
  then show ?case by simp
next
  case (Cons line rest)
  then obtain c cs where line: "line = c # cs" by (cases line) auto
  show ?case
  proof (cases "c = CHR ''v''")
    case True
    with Cons.prems line
    have "\<forall>t\<in>set (tl (split CHR '' '' (strip line))). pf t \<noteq> None" by simp
    then have v: "ObjModel_vector pf line 3 =
        Inr (take 3 (map (\<lambda>t. the (pf t)) (tl (split CHR '' '' (strip line)))))"
      by (rule ObjModel_vector_all)
    from Cons.prems have rest: "\<forall>l\<in>set rest. l \<noteq> [] \<and>
             (take 1 l = ''v'' \<longrightarrow>
                (\<forall>t\<in>set (tl (split CHR '' '' (strip l))). pf t \<noteq> None))"
      by simp
    show ?thesis
      using True line v [unfolded line] Cons.IH [OF rest]
      by (simp add: Let_def add.assoc)
  next
    case False
    from Cons.prems have rest: "\<forall>l\<in>set rest. l \<noteq> [] \<and>
             (take 1 l = ''v'' \<longrightarrow>
                (\<forall>t\<in>set (tl (split CHR '' '' (strip l))). pf t \<noteq> None))"
      by simp
    show ?thesis
      using False line Cons.IH [OF rest]
      by (simp add: Let_def add.assoc)
  qed
qed

subsection \<open>Facts about the binary reader\<close>

lemma then_do_Inr: "m f = (Inr x, f1) \<Longrightarrow> then_do m k f = k x f1"
  by (simp add: then_do_def)

lemma then_do_Inl: "m f = (Inl e, f1) \<Longrightarrow> then_do m k f = (Inl e, f1)"
  by (simp add: then_do_def)

lemma num_real_ok:
  "4 \<le> length (data f) - pos f \<Longrightarrow>
     \<exists>x. BinaryStlModel_num f ''real'' = (Inr x, f\<lparr>pos := pos f + 4\<rparr>)"
  by (simp add: BinaryStlModel_num_def fread_def struct_unpack_def Let_def min_def)

lemma num_real_short:
  "length (data f) - pos f < 4 \<Longrightarrow>
     \<exists>f1. BinaryStlModel_num f ''real'' = (Inl StructError, f1)"
  by (simp add: BinaryStlModel_num_def fread_def struct_unpack_def Let_def min_def)

lemma num_short_ok:
  "2 \<le> length (data f) - pos f \<Longrightarrow>
     \<exists>x. BinaryStlModel_num f ''short'' = (Inr x, f\<lparr>pos := pos f + 2\<rparr>)"
  by (simp add: BinaryStlModel_num_def fread_def struct_unpack_def Let_def min_def)

lemma num_short_short:
  "length (data f) - pos f < 2 \<Longrightarrow>
     \<exists>f1. BinaryStlModel_num f ''short'' = (Inl StructError, f1)"
  by (simp add: BinaryStlModel_num_def fread_def struct_unpack_def Let_def min_def)

lemma num_uint_ok:
  "4 \<le> length (data f) - pos f \<Longrightarrow>
     BinaryStlModel_num f ''uint'' =
       (Inr (int (le_value (take 4 (drop (pos f) (data f))))), f\<lparr>pos := pos f + 4\<rparr>)"
  by (simp add: BinaryStlModel_num_def fread_def struct_unpack_def Let_def min_def)

lemma num_uint_short:
  "length (data f) - pos f < 4 \<Longrightarrow>
     \<exists>f1. BinaryStlModel_num f ''uint'' = (Inl StructError, f1)"
  by (simp add: BinaryStlModel_num_def fread_def struct_unpack_def Let_def min_def)

lemma read_reals_ok:
  "4 * k \<le> length (data f) - pos f \<Longrightarrow>
     \<exists>xs. read_reals k f = (Inr xs, f\<lparr>pos := pos f + 4 * k\<rparr>)"
proof (induction k arbitrary: f)
  case 0
  then show ?case by simp
next
  case (Suc k)
  then have "4 \<le> length (data f) - pos f" by simp
  then obtain x where x: "BinaryStlModel_num f ''real'' = (Inr x, f\<lparr>pos := pos f + 4\<rparr>)"
    using num_real_ok by blast
  from Suc.prems have "4 * k \<le> length (data (f\<lparr>pos := pos f + 4\<rparr>)) - pos (f\<lparr>pos := pos f + 4\<rparr>)"
    by simp
  from Suc.IH [OF this] obtain xs where
    "read_reals k (f\<lparr>pos := pos f + 4\<rparr>) = (Inr xs, f\<lparr>pos := pos f + 4 + 4 * k\<rparr>)"
    by auto
  with x show ?case by (simp add: then_do_def add.assoc)
qed

lemma read_reals_short:
  "length (data f) - pos f < 4 * k \<Longrightarrow> \<exists>f1. read_reals k f = (Inl StructError, f1)"
proof (induction k arbitrary: f)
  case 0
  then show ?case by simp
next
  case (Suc k)
  show ?case
  proof (cases "length (data f) - pos f < 4")
    case True
    then obtain f1 where "BinaryStlModel_num f ''real'' = (Inl StructError, f1)"
      using num_real_short by blast
    then show ?thesis by (simp add: then_do_def)
  next
    case False
    then obtain x where x: "BinaryStlModel_num f ''real'' = (Inr x, f\<lparr>pos := pos f + 4\<rparr>)"
      using num_real_ok [of f] by auto
    from False Suc.prems
    have "length (data (f\<lparr>pos := pos f + 4\<rparr>)) - pos (f\<lparr>pos := pos f + 4\<rparr>) < 4 * k"
      by simp
    from Suc.IH [OF this] obtain f1 where
      "read_reals k (f\<lparr>pos := pos f + 4\<rparr>) = (Inl StructError, f1)" by auto
    with x show ?thesis by (simp add: then_do_def)
  qed
qed

lemma vector_ok:
  "12 \<le> length (data f) - pos f \<Longrightarrow>
     \<exists>v. BinaryStlModel_vector f = (Inr v, f\<lparr>pos := pos f + 12\<rparr>)"
  unfolding BinaryStlModel_vector_def using read_reals_ok [of 3 f] by simp

lemma vector_short:
  "length (data f) - pos f < 12 \<Longrightarrow> \<exists>f1. BinaryStlModel_vector f = (Inl StructError, f1)"
  unfolding BinaryStlModel_vector_def using read_reals_short [of f 3] by simp


lemma append_vectors_ok:
  "12 * k \<le> length (data f) - pos f \<Longrightarrow>
     \<exists>vs1. append_vectors k vs f = (Inr vs1, f\<lparr>pos := pos f + 12 * k\<rparr>)"
proof (induction k arbitrary: f vs)
  case 0
  then show ?case by simp
next
  case (Suc k)
  then have "12 \<le> length (data f) - pos f" by simp
  then obtain v where v: "BinaryStlModel_vector f = (Inr v, f\<lparr>pos := pos f + 12\<rparr>)"
    using vector_ok by blast
  from Suc.prems
  have "12 * k \<le> length (data (f\<lparr>pos := pos f + 12\<rparr>)) - pos (f\<lparr>pos := pos f + 12\<rparr>)"
    by simp
  from Suc.IH [OF this, of "vs @ [v]"] obtain vs1 where
    "append_vectors k (vs @ [v]) (f\<lparr>pos := pos f + 12\<rparr>) =
       (Inr vs1, f\<lparr>pos := pos f + 12 + 12 * k\<rparr>)"
    by auto
  with v show ?case by (simp add: then_do_def add.assoc)
qed

lemma append_vectors_short:
  "length (data f) - pos f < 12 * k \<Longrightarrow> \<exists>f1. append_vectors k vs f = (Inl StructError, f1)"
proof (induction k arbitrary: f vs)
  case 0
  then show ?case by simp
next
  case (Suc k)
  show ?case
  proof (cases "length (data f) - pos f < 12")
    case True
    then obtain f1 where "BinaryStlModel_vector f = (Inl StructError, f1)"
      using vector_short by blast
    then show ?thesis by (simp add: then_do_def)
  next
    case False
    then obtain v where v: "BinaryStlModel_vector f = (Inr v, f\<lparr>pos := pos f + 12\<rparr>)"
      using vector_ok [of f] by auto
    from False Suc.prems
    have "length (data (f\<lparr>pos := pos f + 12\<rparr>)) - pos (f\<lparr>pos := pos f + 12\<rparr>) < 12 * k"
      by simp
    from Suc.IH [OF this, of "vs @ [v]"] obtain f1 where
      "append_vectors k (vs @ [v]) (f\<lparr>pos := pos f + 12\<rparr>) = (Inl StructError, f1)" by auto
    with v show ?thesis by (simp add: then_do_def)
  qed
qed

lemma triangle_ok:
  assumes "50 \<le> length (data f) - pos f"
  shows "\<exists>vs1. triangles (Suc n) vs f = triangles n vs1 (f\<lparr>pos := pos f + 50\<rparr>)"
proof -
  from assms have "12 \<le> length (data f) - pos f" by simp
  then obtain v where v: "BinaryStlModel_vector f = (Inr v, f\<lparr>pos := pos f + 12\<rparr>)"
    using vector_ok by blast
  from assms
  have "12 * 3 \<le> length (data (f\<lparr>pos := pos f + 12\<rparr>)) - pos (f\<lparr>pos := pos f + 12\<rparr>)"
    by simp
  from append_vectors_ok [OF this, of vs] obtain vs1 where
    a: "append_vectors 3 vs (f\<lparr>pos := pos f + 12\<rparr>) = (Inr vs1, f\<lparr>pos := pos f + 48\<rparr>)"
    by auto
  from assms
  have "2 \<le> length (data (f\<lparr>pos := pos f + 48\<rparr>)) - pos (f\<lparr>pos := pos f + 48\<rparr>)"
    by simp
  from num_short_ok [OF this] obtain x where
    s: "BinaryStlModel_num (f\<lparr>pos := pos f + 48\<rparr>) ''short'' = (Inr x, f\<lparr>pos := pos f + 50\<rparr>)"
    by auto
  have "triangles (Suc n) vs f = triangles n vs1 (f\<lparr>pos := pos f + 50\<rparr>)"
    by (simp add: then_do_def v a s del: append_vectors.simps)
  then show ?thesis by blast
qed

lemma triangle_short:
  assumes "length (data f) - pos f < 50"
  shows "\<exists>f1. triangles (Suc n) vs f = (Inl StructError, f1)"
proof (cases "length (data f) - pos f < 12")
  case True
  then obtain f1 where "BinaryStlModel_vector f = (Inl StructError, f1)"
    using vector_short by blast
  then show ?thesis by (simp add: then_do_def)
next
  case False
  then obtain v where v: "BinaryStlModel_vector f = (Inr v, f\<lparr>pos := pos f + 12\<rparr>)"
    using vector_ok [of f] by auto
  show ?thesis
  proof (cases "length (data f) - pos f < 48")
    case True
    then have "length (data (f\<lparr>pos := pos f + 12\<rparr>)) - pos (f\<lparr>pos := pos f + 12\<rparr>) < 12 * 3"
      by simp
    from append_vectors_short [OF this, of vs] obtain f1 where
      "append_vectors 3 vs (f\<lparr>pos := pos f + 12\<rparr>) = (Inl StructError, f1)" by auto
    with v show ?thesis by (simp add: then_do_def del: append_vectors.simps)
  next
    case False
    then have
      "12 * 3 \<le> length (data (f\<lparr>pos := pos f + 12\<rparr>)) - pos (f\<lparr>pos := pos f + 12\<rparr>)"
      by simp
    from append_vectors_ok [OF this, of vs] obtain vs1 where
      a: "append_vectors 3 vs (f\<lparr>pos := pos f + 12\<rparr>) = (Inr vs1, f\<lparr>pos := pos f + 48\<rparr>)"
      by auto
    from assms False
    have "length (data (f\<lparr>pos := pos f + 48\<rparr>)) - pos (f\<lparr>pos := pos f + 48\<rparr>) < 2"
      by simp
    from num_short_short [OF this] obtain f1 where
      "BinaryStlModel_num (f\<lparr>pos := pos f + 48\<rparr>) ''short'' = (Inl StructError, f1)"
      by auto
    with v a show ?thesis by (simp add: then_do_def del: append_vectors.simps)
  qed
qed

lemma triangles_short:
  "length (data f) - pos f < 50 * n \<Longrightarrow> \<exists>f1. triangles n vs f = (Inl StructError, f1)"
proof (induction n arbitrary: f vs)
  case 0
  then show ?case by simp
next
  case (Suc n)
  show ?case
  proof (cases "length (data f) - pos f < 50")
    case True
    then show ?thesis by (rule triangle_short)
  next
    case False
    then obtain vs1 where
      t: "triangles (Suc n) vs f = triangles n vs1 (f\<lparr>pos := pos f + 50\<rparr>)"
      using triangle_ok [of f n vs] by auto
    from False Suc.prems
    have "length (data (f\<lparr>pos := pos f + 50\<rparr>)) - pos (f\<lparr>pos := pos f + 50\<rparr>) < 50 * n"
      by simp
    from Suc.IH [OF this, of vs1] t show ?thesis by simp
  qed
qed

lemma BinaryStlModel_load_header_short:
  assumes "length (data f) < 84"
  shows "\<exists>f1. BinaryStlModel_load cap f = (Inl StructError, f1)"
proof -
  from assms have "length (data (fseek 80 f)) - pos (fseek 80 f) < 4"
    by (simp add: fseek_def)
  from num_uint_short [OF this] obtain f1 where
    "BinaryStlModel_num (fseek 80 f) ''uint'' = (Inl StructError, f1)" by auto
  then show ?thesis by (simp add: BinaryStlModel_load_def then_do_def)
qed

lemma BinaryStlModel_load_count:
  assumes "84 \<le> length (data f)"
  shows "BinaryStlModel_load cap f =
           (if cap < le_value (take 4 (drop 80 (data f))) then (Inl MemoryError, f\<lparr>pos := 84\<rparr>)
            else triangles (le_value (take 4 (drop 80 (data f)))) [] (f\<lparr>pos := 84\<rparr>))"
proof -
  from assms have "4 \<le> length (data (fseek 80 f)) - pos (fseek 80 f)"
    by (simp add: fseek_def)
  from num_uint_ok [OF this] show ?thesis
    by (simp add: BinaryStlModel_load_def then_do_def fseek_def)
qed

lemma BinaryStlModel_truncated:
  assumes "length (data f) < 84 + 50 * le_value (take 4 (drop 80 (data f)))"
  shows "fst (BinaryStlModel cap f) =
           (if 84 \<le> length (data f) \<and> cap < le_value (take 4 (drop 80 (data f)))
            then Inl MemoryError else Inl StructError)"
proof (cases "84 \<le> length (data f)")
  case False
  then obtain f1 where "BinaryStlModel_load cap f = (Inl StructError, f1)"
    using BinaryStlModel_load_header_short [of f cap] by auto
  with False show ?thesis by (simp add: BinaryStlModel_def ThreeDee_init_def)
next
  case True
  note load = BinaryStlModel_load_count [OF True, of cap]
  show ?thesis
  proof (cases "cap < le_value (take 4 (drop 80 (data f)))")
    case True
    with load \<open>84 \<le> length (data f)\<close> show ?thesis
      by (simp add: BinaryStlModel_def ThreeDee_init_def)
  next
    case False
    from assms \<open>84 \<le> length (data f)\<close>
    have "length (data (f\<lparr>pos := 84\<rparr>)) - pos (f\<lparr>pos := 84\<rparr>)
            < 50 * le_value (take 4 (drop 80 (data f)))"
      by simp
    from triangles_short [OF this, of "[]"] obtain f1 where
      "triangles (le_value (take 4 (drop 80 (data f)))) [] (f\<lparr>pos := 84\<rparr>) = (Inl StructError, f1)"
      by auto
    with load False show ?thesis
      by (simp add: BinaryStlModel_def ThreeDee_init_def)
  qed
qed

lemma BinaryStlModel_MemoryError:
  assumes "84 \<le> length (data f)" and "cap < le_value (take 4 (drop 80 (data f)))"
  shows "BinaryStlModel cap f = (Inl MemoryError, f\<lparr>pos := 84\<rparr>)"
  using assms by (simp add: BinaryStlModel_def ThreeDee_init_def BinaryStlModel_load_count)

subsection \<open>Facts about the \<open>try\<close> blocks\<close>

lemma try_ObjModel_outcome:
  assumes "ObjModel pf f = (r, f1)"
  shows "try_ObjModel pf f =
           (case r of
              Inr m \<Rightarrow> (Inr (Some (Obj m)), f1)
            | Inl e \<Rightarrow> if is_parse_error e then (Inr None, f1) else (Inl e, f1))"
proof (cases r)
  case (Inl e)
  with assms show ?thesis
    by (cases e) (simp_all add: try_ObjModel_def is_parse_error_def)
next
  case (Inr m)
  with assms show ?thesis by (simp add: try_ObjModel_def)
qed

lemma try_BinaryStlModel_outcome:
  assumes "BinaryStlModel cap f = (r, f1)"
  shows "try_BinaryStlModel cap f =
           (case r of
              Inr m \<Rightarrow> (Inr (Some (BinaryStl m)), f1)
            | Inl e \<Rightarrow> if is_parse_error e \<or> e = MemoryError then (Inr None, f1)
                       else (Inl e, f1))"
proof (cases r)
  case (Inl e)
  with assms show ?thesis
    by (cases e) (simp_all add: try_BinaryStlModel_def is_parse_error_def)
next
  case (Inr m)
  with assms show ?thesis by (simp add: try_BinaryStlModel_def)
qed

subsection \<open>Statistics of a parsed model\<close>

text \<open>
  C9. Parsing the OBJ text \<open>v 1 2 3\<newline>v 4 5 6\<close> (each line ended by a newline) succeeds:
  the vertices are (1,2,3) and (4,5,6) in that order, the minimum is (1,2,3), the maximum
  (4,5,6), the average (2.5,3.5,4.5), and width, depth and height are all 3.
\<close>

theorem obj_round_trip:
  "ObjModel py_float \<lparr>data = ''v 1 2 3\<newline>v 4 5 6\<newline>'', pos = 0\<rparr> =
     (Inr \<lparr>verts = [[1, 2, 3], [4, 5, 6]], average = [5 / 2, 7 / 2, 9 / 2],
           min_xyz = [Some 1, Some 2, Some 3], max_xyz = [Some 4, Some 5, Some 6],
           width = 3, depth = 3, height = 3\<rparr>,
      \<lparr>data = ''v 1 2 3\<newline>v 4 5 6\<newline>'', pos = 16\<rparr>)"
  by code_simp

text \<open>
  C1. The claim is that \<open>min[i]\<close> and \<open>max[i]\<close> are the least and greatest coordinate and
  enclose the average, also when a coordinate is 0. The code tests \<open>not self.min[i]\<close> to
  find out whether a minimum has been recorded, and the number zero passes that test as
  \<open>None\<close> does: a recorded minimum of 0 is forgotten at the next vertex, and minimum and
  maximum both restart from that vertex. For the vertices (0,0,0) and (5,5,5) the code
  ends with minimum 5 and maximum 5 on every axis, where the least coordinate is 0, and
  with the average 5/2 below the minimum.
\<close>

theorem zero_minimum_is_forgotten:
  "ObjModel py_float \<lparr>data = ''v 0 0 0\<newline>v 5 5 5\<newline>'', pos = 0\<rparr> =
     (Inr \<lparr>verts = [[0, 0, 0], [5, 5, 5]], average = [5 / 2, 5 / 2, 5 / 2],
           min_xyz = [Some 5, Some 5, Some 5], max_xyz = [Some 5, Some 5, Some 5],
           width = 0, depth = 0, height = 0\<rparr>,
      \<lparr>data = ''v 0 0 0\<newline>v 5 5 5\<newline>'', pos = 16\<rparr>)"
  by code_simp

text \<open>
  C8. A parse that yields no vertex fails with the library's error for an empty model,
  \<open>ThreeDeeParseError\<close> with the message of the source, and returns no model: so does an
  OBJ stream none of whose lines starts with \<open>v\<close>, and so does a binary stream that holds
  the header and the triangle count 0.
\<close>

theorem empty_model_is_rejected:
  "((\<forall>l\<in>set (file_lines (drop (pos f) (data f))). take 1 l \<noteq> ''v'')
      \<longrightarrow> fst (ObjModel pyfloat f) = Inl (ThreeDeeParseError ''Empyt model.''))
   \<and> (84 \<le> length (data f) \<and> le_value (take 4 (drop 80 (data f))) = 0
      \<longrightarrow> fst (BinaryStlModel cap f) = Inl (ThreeDeeParseError ''Empyt model.''))"
proof (intro conjI impI)
  assume "\<forall>l\<in>set (file_lines (drop (pos f) (data f))). take 1 l \<noteq> ''v''"
  then have "\<forall>l\<in>set (file_lines (drop (pos f) (data f))). l \<noteq> [] \<and> take 1 l \<noteq> ''v''"
    using file_lines_nonempty by blast
  then have "fst (ObjModel_load pyfloat f) = Inr []"
    by (simp add: ObjModel_load_def ObjModel_lines_skip)
  then show "fst (ObjModel pyfloat f) = Inl (ThreeDeeParseError ''Empyt model.'')"
    by (cases "ObjModel_load pyfloat f")
       (simp add: ObjModel_def ThreeDee_init_def statistics_empty)
next
  assume "84 \<le> length (data f) \<and> le_value (take 4 (drop 80 (data f))) = 0"
  then show "fst (BinaryStlModel cap f) = Inl (ThreeDeeParseError ''Empyt model.'')"
    by (simp add: BinaryStlModel_def ThreeDee_init_def BinaryStlModel_load_count
        statistics_empty)
qed

theorem empty_model_is_rejected_witness:
  "fst (ObjModel py_float \<lparr>data = ''# c\<newline>f 1 2 3\<newline>'', pos = 0\<rparr>)
     = Inl (ThreeDeeParseError ''Empyt model.'')
   \<and> fst (BinaryStlModel 1000
     \<lparr>data = replicate 80 (CHR 0x00) @ [CHR 0x00, CHR 0x00, CHR 0x00, CHR 0x00], pos = 0\<rparr>)
     = Inl (ThreeDeeParseError ''Empyt model.'')"
  using empty_model_is_rejected [of "\<lparr>data = ''# c\<newline>f 1 2 3\<newline>'', pos = 0\<rparr>" py_float 1000]
        empty_model_is_rejected [of "\<lparr>data = replicate 80 (CHR 0x00)
              @ [CHR 0x00, CHR 0x00, CHR 0x00, CHR 0x00], pos = 0\<rparr>" py_float 1000]
  by (simp add: le_value_def)

subsection \<open>Decoding of binary fields\<close>

text \<open>
  C2. The claim is that a field tagged "real" is decoded as an IEEE-754 binary32 number.
  The code unpacks it with the format \<open><i\<close>, a signed integer: the bytes 00 00 80 3F,
  which are the number 1.0 in binary32, are decoded as the integer 1065353216.
\<close>

theorem real_field_is_read_as_integer:
  "BinaryStlModel_num \<lparr>data = [CHR 0x00, CHR 0x00, CHR 0x80, CHR 0x3F], pos = 0\<rparr> ''real''
     = (Inr 1065353216, \<lparr>data = [CHR 0x00, CHR 0x00, CHR 0x80, CHR 0x3F], pos = 4\<rparr>)
   \<and> ieee754_binary32 [CHR 0x00, CHR 0x00, CHR 0x80, CHR 0x3F] = Some 1"
  by (simp add: BinaryStlModel_num_def fread_def struct_unpack_def le_value_def
      ieee754_binary32_def)

text \<open>
  C5 (as stated). The claim is that a binary stream too short for its declared number of
  triangles fails with the library's typed error for truncated input. The library has one
  exception class, \<open>ThreeDeeParseError\<close>, and the code does not raise it here: a stream
  of the 80 header bytes and the count 1, with no triangle after it, ends in
  \<open>struct.error\<close>, raised by \<open>struct.unpack\<close> on the short read.
\<close>

theorem truncated_binary_stl_raises_struct_error:
  "fst (BinaryStlModel 1000
     \<lparr>data = replicate 80 (CHR 0x00) @ [CHR 0x01, CHR 0x00, CHR 0x00, CHR 0x00], pos = 0\<rparr>)
     = Inl StructError"
  using BinaryStlModel_truncated [of "\<lparr>data = replicate 80 (CHR 0x00)
              @ [CHR 0x01, CHR 0x00, CHR 0x00, CHR 0x00], pos = 0\<rparr>" 1000]
  by (simp add: le_value_def)

text \<open>
  C5 (amended). For every binary stream that is shorter than the 84 bytes of header and
  count followed by 50 bytes for each declared triangle, \<open>BinaryStlModel\<close> raises
  \<open>struct.error\<close>, the exception of \<open>struct.unpack\<close> for a read that returned fewer
  bytes than the field has; it raises \<open>MemoryError\<close> instead, before reading any triangle,
  when the count could be read and is more than \<open>range\<close> can allocate. No model is
  returned, and the exception is not the library's \<open>ThreeDeeParseError\<close>.
\<close>

theorem truncated_binary_stl:
  assumes "length (data f) < 84 + 50 * le_value (take 4 (drop 80 (data f)))"
  shows "fst (BinaryStlModel cap f) =
           (if 84 \<le> length (data f) \<and> cap < le_value (take 4 (drop 80 (data f)))
            then Inl MemoryError else Inl StructError)"
  using assms by (rule BinaryStlModel_truncated)

theorem truncated_binary_stl_witness:
  "fst (BinaryStlModel 1000
     \<lparr>data = replicate 80 (CHR 0x00) @ [CHR 0x02, CHR 0x00, CHR 0x00, CHR 0x00]
              @ replicate 50 (CHR 0x00), pos = 0\<rparr>) = Inl StructError
   \<and> fst (BinaryStlModel 1
     \<lparr>data = replicate 80 (CHR 0x00) @ [CHR 0x02, CHR 0x00, CHR 0x00, CHR 0x00]
              @ replicate 50 (CHR 0x00), pos = 0\<rparr>) = Inl MemoryError"
  using truncated_binary_stl [of "\<lparr>data = replicate 80 (CHR 0x00)
              @ [CHR 0x02, CHR 0x00, CHR 0x00, CHR 0x00] @ replicate 50 (CHR 0x00), pos = 0\<rparr>" 1000]
        truncated_binary_stl [of "\<lparr>data = replicate 80 (CHR 0x00)
              @ [CHR 0x02, CHR 0x00, CHR 0x00, CHR 0x00] @ replicate 50 (CHR 0x00), pos = 0\<rparr>" 1]
  by (simp add: le_value_def)

subsection \<open>The OBJ parser\<close>

text \<open>
  C7 (as stated). The claim is that every line that is not a vertex record is skipped, in
  particular a normal line beginning with \<open>vn\<close>. The code takes every line whose first
  byte is \<open>v\<close> for a vertex record: the stream \<open>vn 0 0 1\<close> parses to a model with the one
  vertex (0,0,1).
\<close>

theorem normal_line_is_read_as_vertex:
  "ObjModel py_float \<lparr>data = ''vn 0 0 1\<newline>'', pos = 0\<rparr> =
     (Inr \<lparr>verts = [[0, 0, 1]], average = [0, 0, 1],
           min_xyz = [Some 0, Some 0, Some 1], max_xyz = [Some 0, Some 0, Some 1],
           width = 0, depth = 0, height = 0\<rparr>,
      \<lparr>data = ''vn 0 0 1\<newline>'', pos = 9\<rparr>)"
  by code_simp

text \<open>
  C7 (amended). A line is skipped exactly when its first byte is not \<open>v\<close>: when \<open>load\<close>
  returns, the vertices are the results of \<open>__vector\<close> on the lines whose first byte is
  \<open>v\<close>, in their order, whatever follows that byte (\<open>vn\<close>, \<open>vt\<close>, \<open>vertex\<close>).
\<close>

theorem vertex_lines_start_with_v:
  assumes "ObjModel_load pyfloat f = (Inr vs, f1)"
  shows "map Inr vs = map (\<lambda>l. ObjModel_vector pyfloat l 3)
           (filter (\<lambda>l. take 1 l = ''v'') (file_lines (drop (pos f) (data f))))"
  using assms by (rule ObjModel_load_verts)

theorem vertex_lines_start_with_v_witness:
  "map Inr [[1, 2, 3], [0, 0, 1 :: rat]] =
     map (\<lambda>l. ObjModel_vector py_float l 3)
       (filter (\<lambda>l. take 1 l = ''v'')
         (file_lines (drop (pos \<lparr>data = ''# c\<newline>v 1 2 3\<newline>vn 0 0 1\<newline>f 1 2 3\<newline>'', pos = 0\<rparr>)
            (data \<lparr>data = ''# c\<newline>v 1 2 3\<newline>vn 0 0 1\<newline>f 1 2 3\<newline>'', pos = 0\<rparr>))))"
proof -
  have h: "ObjModel_load py_float \<lparr>data = ''# c\<newline>v 1 2 3\<newline>vn 0 0 1\<newline>f 1 2 3\<newline>'', pos = 0\<rparr> =
     (Inr [[1, 2, 3], [0, 0, 1]], \<lparr>data = ''# c\<newline>v 1 2 3\<newline>vn 0 0 1\<newline>f 1 2 3\<newline>'', pos = 29\<rparr>)"
    by code_simp
  show ?thesis by (rule vertex_lines_start_with_v [OF h])
qed

text \<open>
  C6 (as stated). The claim is that a vertex line with fewer than three numbers fails with
  the library's error for malformed records. The library has one exception class,
  \<open>ThreeDeeParseError\<close>, and the line \<open>v 1 2\<close> raises the builtin \<open>IndexError\<close> instead.
\<close>

theorem two_numbers_raise_IndexError:
  "ObjModel py_float \<lparr>data = ''v 1 2\<newline>'', pos = 0\<rparr> =
     (Inl IndexError, \<lparr>data = ''v 1 2\<newline>'', pos = 6\<rparr>)"
  by code_simp

text \<open>
  C6 (amended). \<open>__vector\<close> converts every token after the marker with \<open>float\<close> and
  raises \<open>ValueError\<close> when one of them, be it beyond the third, is no number; when all
  are numbers it returns the first three of them, and all of them when there are fewer
  than three, without complaint. For a stream in which every token of every line whose
  first byte is \<open>v\<close> is a number and some such line has fewer than three tokens, the
  construction of the model raises the builtin \<open>IndexError\<close>, when the statistics index
  the missing component, and not an exception of the library.
\<close>

theorem short_vertex_record_raises_IndexError:
  "((\<forall>t\<in>set (tl (split CHR '' '' (strip line))). pyfloat t \<noteq> None)
      \<longrightarrow> ObjModel_vector pyfloat line 3 =
            Inr (take 3 (map (\<lambda>t. the (pyfloat t)) (tl (split CHR '' '' (strip line))))))
   \<and> ((\<exists>t\<in>set (tl (split CHR '' '' (strip line))). pyfloat t = None)
      \<longrightarrow> ObjModel_vector pyfloat line 3 = Inl ValueError)
   \<and> ((\<forall>l\<in>set (file_lines (drop (pos f) (data f))).
          take 1 l = ''v'' \<longrightarrow>
            (\<forall>t\<in>set (tl (split CHR '' '' (strip l))). pyfloat t \<noteq> None))
       \<and> (\<exists>l\<in>set (file_lines (drop (pos f) (data f))).
          take 1 l = ''v'' \<and> length (tl (split CHR '' '' (strip l))) < 3)
      \<longrightarrow> ObjModel pyfloat f =
            (Inl IndexError, f\<lparr>pos := pos f + length (drop (pos f) (data f))\<rparr>))"
proof (intro conjI impI)
  assume "\<forall>t\<in>set (tl (split CHR '' '' (strip line))). pyfloat t \<noteq> None"
  then show "ObjModel_vector pyfloat line 3 =
            Inr (take 3 (map (\<lambda>t. the (pyfloat t)) (tl (split CHR '' '' (strip line)))))"
    by (rule ObjModel_vector_all)
next
  assume "\<exists>t\<in>set (tl (split CHR '' '' (strip line))). pyfloat t = None"
  then show "ObjModel_vector pyfloat line 3 = Inl ValueError"
    by (rule ObjModel_vector_some_bad)
next
  let ?ls = "file_lines (drop (pos f) (data f))"
  let ?vec = "\<lambda>l. take 3 (map (\<lambda>t. the (pyfloat t)) (tl (split CHR '' '' (strip l))))"
  assume a: "(\<forall>l\<in>set ?ls. take 1 l = ''v'' \<longrightarrow>
            (\<forall>t\<in>set (tl (split CHR '' '' (strip l))). pyfloat t \<noteq> None))
       \<and> (\<exists>l\<in>set ?ls. take 1 l = ''v'' \<and> length (tl (split CHR '' '' (strip l))) < 3)"
  then have "\<forall>l\<in>set ?ls. l \<noteq> [] \<and> (take 1 l = ''v'' \<longrightarrow>
            (\<forall>t\<in>set (tl (split CHR '' '' (strip l))). pyfloat t \<noteq> None))"
    using file_lines_nonempty by blast
  from ObjModel_lines_all_parse [OF this, of "[]" f]
  have load: "ObjModel_load pyfloat f =
      (Inr (map ?vec (filter (\<lambda>l. take 1 l = ''v'') ?ls)),
       f\<lparr>pos := pos f + length (drop (pos f) (data f))\<rparr>)"
    by (simp add: ObjModel_load_def concat_file_lines)
  from a obtain l where l: "l \<in> set ?ls" "take 1 l = ''v''"
      "length (tl (split CHR '' '' (strip l))) < 3"
    by blast
  then have "l \<in> set (filter (\<lambda>l. take 1 l = ''v'') ?ls)"
    by simp
  then have "?vec l \<in> ?vec ` set (filter (\<lambda>l. take 1 l = ''v'') ?ls)"
    by (rule imageI)
  then have "?vec l \<in> set (map ?vec (filter (\<lambda>l. take 1 l = ''v'') ?ls))"
    by (simp only: set_map)
  moreover from l(3) have "length (?vec l) < 3" by simp
  ultimately have "\<exists>v\<in>set (map ?vec (filter (\<lambda>l. take 1 l = ''v'') ?ls)). length v < 3"
    by blast
  then have "statistics (map ?vec (filter (\<lambda>l. take 1 l = ''v'') ?ls)) = Inl IndexError"
    by (rule statistics_short)
  with load show "ObjModel pyfloat f =
            (Inl IndexError, f\<lparr>pos := pos f + length (drop (pos f) (data f))\<rparr>)"
    by (simp add: ObjModel_def ThreeDee_init_def)
qed

theorem short_vertex_record_raises_IndexError_witness:
  "ObjModel_vector py_float ''v 1 2 3 4\<newline>'' 3 = Inr [1, 2, 3]
   \<and> ObjModel_vector py_float ''v 7 8\<newline>'' 3 = Inr [7, 8]
   \<and> ObjModel_vector py_float ''v 1 2 3 x\<newline>'' 3 = Inl ValueError
   \<and> ObjModel py_float \<lparr>data = ''v 1 2 3 4\<newline>v 7 8\<newline>'', pos = 0\<rparr> =
       (Inl IndexError, \<lparr>data = ''v 1 2 3 4\<newline>v 7 8\<newline>'', pos = 16\<rparr>)"
proof -
  let ?F = "\<lparr>data = ''v 1 2 3 4\<newline>v 7 8\<newline>'', pos = 0\<rparr>"
  have h1: "\<forall>t\<in>set (tl (split CHR '' '' (strip ''v 1 2 3 4\<newline>''))). py_float t \<noteq> None"
    by code_simp
  have e1: "take 3 (map (\<lambda>t. the (py_float t)) (tl (split CHR '' '' (strip ''v 1 2 3 4\<newline>''))))
             = [1, 2, 3]"
    by code_simp
  have h2: "\<forall>t\<in>set (tl (split CHR '' '' (strip ''v 7 8\<newline>''))). py_float t \<noteq> None"
    by code_simp
  have e2: "take 3 (map (\<lambda>t. the (py_float t)) (tl (split CHR '' '' (strip ''v 7 8\<newline>''))))
             = [7, 8]"
    by code_simp
  have h3: "\<exists>t\<in>set (tl (split CHR '' '' (strip ''v 1 2 3 x\<newline>''))). py_float t = None"
    by code_simp
  have h4: "(\<forall>l\<in>set (file_lines (drop (pos ?F) (data ?F))).
          take 1 l = ''v'' \<longrightarrow>
            (\<forall>t\<in>set (tl (split CHR '' '' (strip l))). py_float t \<noteq> None))
       \<and> (\<exists>l\<in>set (file_lines (drop (pos ?F) (data ?F))).
          take 1 l = ''v'' \<and> length (tl (split CHR '' '' (strip l))) < 3)"
    by code_simp
  note T = short_vertex_record_raises_IndexError
  from T [of "''v 1 2 3 4\<newline>''" py_float ?F, THEN conjunct1, THEN mp, OF h1]
  have 1: "ObjModel_vector py_float ''v 1 2 3 4\<newline>'' 3 = Inr [1, 2, 3]"
    by (simp only: e1)
  from T [of "''v 7 8\<newline>''" py_float ?F, THEN conjunct1, THEN mp, OF h2]
  have 2: "ObjModel_vector py_float ''v 7 8\<newline>'' 3 = Inr [7, 8]"
    by (simp only: e2)
  from T [of "''v 1 2 3 x\<newline>''" py_float ?F, THEN conjunct2, THEN conjunct1, THEN mp, OF h3]
  have 3: "ObjModel_vector py_float ''v 1 2 3 x\<newline>'' 3 = Inl ValueError" .
  from T [of "''v 7 8\<newline>''" py_float ?F, THEN conjunct2, THEN conjunct2, THEN mp, OF h4]
  have 4: "ObjModel py_float ?F = (Inl IndexError, \<lparr>data = ''v 1 2 3 4\<newline>v 7 8\<newline>'', pos = 16\<rparr>)"
    by simp
  from 1 2 3 4 show ?thesis by simp
qed

subsection \<open>Format detection\<close>

text \<open>
  C10. For a hint that is a non-empty string other than \<open>obj\<close> and \<open>stl\<close>, \<open>auto_detect\<close>
  raises \<open>ThreeDeeParseError\<close> at once: no parser runs, and the file object is left as it
  was.
\<close>

theorem unknown_hint_is_rejected:
  assumes "hint = Some h" and "h \<noteq> []" and "h \<noteq> ''obj''" and "h \<noteq> ''stl''"
  shows "auto_detect pyfloat cap fileob hint =
           (Inl (ThreeDeeParseError ''Could not successfully parse the model :(''), fileob)"
  using assms by (simp add: auto_detect_def falsy_def)

theorem unknown_hint_is_rejected_witness:
  "auto_detect py_float 1000 \<lparr>data = ''v 1 2 3\<newline>'', pos = 0\<rparr> (Some ''ply'') =
     (Inl (ThreeDeeParseError ''Could not successfully parse the model :(''),
      \<lparr>data = ''v 1 2 3\<newline>'', pos = 0\<rparr>)"
  using unknown_hint_is_rejected
    [of "Some ''ply''" "''ply''" py_float 1000 "\<lparr>data = ''v 1 2 3\<newline>'', pos = 0\<rparr>"]
  by simp

text \<open>
  C3 (as stated). The claim is that the stream is rewound to position 0 before the next
  candidate reads, so that the ASCII attempt after a failed attempt sees the bytes from
  the beginning. \<open>auto_detect\<close> never moves the position itself. On a stream that holds a
  vertex line before its position 8 and none after it, the first attempt finds no vertex,
  the ASCII attempt that follows finds none either and the binary parser raises
  \<open>struct.error\<close>; read from position 0, the same stream parses to a model.
\<close>

theorem ascii_attempt_reads_from_where_the_first_stopped:
  "auto_detect py_float 1000 \<lparr>data = ''v 1 2 3\<newline>x\<newline>'', pos = 8\<rparr> None =
     (Inl StructError, \<lparr>data = ''v 1 2 3\<newline>x\<newline>'', pos = 80\<rparr>)
   \<and> ObjModel py_float \<lparr>data = ''v 1 2 3\<newline>x\<newline>'', pos = 0\<rparr> =
     (Inr \<lparr>verts = [[1, 2, 3]], average = [1, 2, 3],
           min_xyz = [Some 1, Some 2, Some 3], max_xyz = [Some 1, Some 2, Some 3],
           width = 0, depth = 0, height = 0\<rparr>,
      \<lparr>data = ''v 1 2 3\<newline>x\<newline>'', pos = 10\<rparr>)"
  by code_simp

text \<open>
  C3 (amended). \<open>auto_detect\<close> hands the file object from one candidate to the next as
  the former left it. An \<open>ObjModel\<close> attempt that fails with \<open>ThreeDeeParseError\<close> has read
  every line and leaves the position at the end of the stream; the ASCII attempt that
  follows it for the hint \<open>None\<close> starts there, reads no line and fails as an empty model,
  so the result of \<open>auto_detect\<close> is that of the binary attempt on the stream as left.
  The binary parser alone positions the stream, by its own absolute seek to offset 80, and
  so does not depend on the position it is given.
\<close>

theorem no_rewind_between_candidates:
  assumes "ObjModel pyfloat f = (Inl (ThreeDeeParseError msg), f1)"
  shows "f1 = f\<lparr>pos := pos f + length (drop (pos f) (data f))\<rparr>
       \<and> ObjModel pyfloat f1 = (Inl (ThreeDeeParseError ''Empyt model.''), f1)
       \<and> auto_detect pyfloat cap f None =
           (case try_BinaryStlModel cap f1 of
              (Inl e, f2) \<Rightarrow> (Inl e, f2)
            | (Inr (Some m), f2) \<Rightarrow> (Inr m, f2)
            | (Inr None, f2) \<Rightarrow>
                (Inl (ThreeDeeParseError ''Could not successfully parse the model :(''), f2))
       \<and> BinaryStlModel cap f1 = BinaryStlModel cap (fseek 0 f1)"
proof -
  note again = ObjModel_fails_again [OF assms]
  have t1: "try_ObjModel pyfloat f = (Inr None, f1)"
    using assms by (simp add: try_ObjModel_def)
  have t2: "try_ObjModel pyfloat f1 = (Inr None, f1)"
    using again(2) by (simp add: try_ObjModel_def)
  have "auto_detect pyfloat cap f None =
           (case try_BinaryStlModel cap f1 of
              (Inl e, f2) \<Rightarrow> (Inl e, f2)
            | (Inr (Some m), f2) \<Rightarrow> (Inr m, f2)
            | (Inr None, f2) \<Rightarrow>
                (Inl (ThreeDeeParseError ''Could not successfully parse the model :(''), f2))"
    by (simp add: auto_detect_def falsy_def stl_candidates_def t1 t2)
  moreover have "BinaryStlModel cap f1 = BinaryStlModel cap (fseek 0 f1)"
    by (simp add: fseek_def BinaryStlModel_seeks)
  ultimately show ?thesis using again by blast
qed

theorem no_rewind_between_candidates_witness:
  "ObjModel py_float \<lparr>data = ''#'', pos = 0\<rparr> =
     (Inl (ThreeDeeParseError ''Empyt model.''), \<lparr>data = ''#'', pos = 1\<rparr>)
   \<and> ObjModel py_float \<lparr>data = ''#'', pos = 1\<rparr> =
     (Inl (ThreeDeeParseError ''Empyt model.''), \<lparr>data = ''#'', pos = 1\<rparr>)
   \<and> auto_detect py_float 1000 \<lparr>data = ''#'', pos = 0\<rparr> None =
     (Inl StructError, \<lparr>data = ''#'', pos = 80\<rparr>)"
proof -
  have h: "ObjModel py_float \<lparr>data = ''#'', pos = 0\<rparr> =
     (Inl (ThreeDeeParseError ''Empyt model.''), \<lparr>data = ''#'', pos = 1\<rparr>)"
    by code_simp
  have b: "try_BinaryStlModel 1000 \<lparr>data = ''#'', pos = 1\<rparr> =
     ((Inl StructError :: error + rat model option), \<lparr>data = ''#'', pos = 80\<rparr>)"
    by code_simp
  from no_rewind_between_candidates [OF h, of 1000] show ?thesis
    using h b by simp
qed

text \<open>
  C4 (as stated). The claim is that every error of a candidate is caught, and that only
  the final unrecognized-format error and I/O errors leave \<open>auto_detect\<close>. A token that is
  no number raises \<open>ValueError\<close>, which no handler of \<open>auto_detect\<close> catches.
\<close>

theorem malformed_number_leaves_auto_detect:
  "auto_detect py_float 1000 \<lparr>data = ''v x\<newline>'', pos = 0\<rparr> (Some ''obj'') =
     (Inl ValueError, \<lparr>data = ''v x\<newline>'', pos = 4\<rparr>)"
  by code_simp

text \<open>
  C4 (amended). \<open>auto_detect\<close> catches \<open>ThreeDeeParseError\<close> from each candidate, and
  \<open>MemoryError\<close> from the binary candidate, and then goes on to the next candidate, or
  raises its own final \<open>ThreeDeeParseError\<close> when none is left; every other exception of
  a candidate leaves \<open>auto_detect\<close> as it is. For each of the hints \<open>obj\<close>, \<open>stl\<close> and
  none the result is fixed by the outcome of \<open>ObjModel\<close> on the stream and of
  \<open>BinaryStlModel\<close> on the stream as \<open>ObjModel\<close> left it: a model of the first is
  returned; an exception of the first other than \<open>ThreeDeeParseError\<close> is raised; after
  \<open>ThreeDeeParseError\<close> the hint \<open>obj\<close> gives the final error, and the other hints give
  the model of the binary parser, the final error when the binary parser raised
  \<open>ThreeDeeParseError\<close> or \<open>MemoryError\<close>, and its exception otherwise.
\<close>

theorem auto_detect_catches_and_propagates:
  assumes "hint = Some ''obj'' \<or> hint = Some ''stl'' \<or> falsy hint"
      and "ObjModel pyfloat f = (r, f1)"
      and "BinaryStlModel cap f1 = (r2, f2)"
  shows "auto_detect pyfloat cap f hint =
     (case r of
        Inr m \<Rightarrow> (Inr (Obj m), f1)
      | Inl e \<Rightarrow>
          if is_parse_error e then
            (if hint = Some ''obj''
             then (Inl (ThreeDeeParseError ''Could not successfully parse the model :(''), f1)
             else (case r2 of
                     Inr m2 \<Rightarrow> (Inr (BinaryStl m2), f2)
                   | Inl e2 \<Rightarrow>
                       if is_parse_error e2 \<or> e2 = MemoryError
                       then (Inl (ThreeDeeParseError
                                    ''Could not successfully parse the model :(''), f2)
                       else (Inl e2, f2)))
          else (Inl e, f1))"
proof -
  note first = try_ObjModel_outcome [OF assms(2)]
  show ?thesis
  proof (cases r)
    case (Inr m)
    with first assms(1) show ?thesis
      by (auto simp: auto_detect_def stl_candidates_def falsy_def)
  next
    case (Inl e)
    show ?thesis
    proof (cases "is_parse_error e")
      case False
      with first Inl assms(1) show ?thesis
        by (auto simp: auto_detect_def stl_candidates_def falsy_def)
    next
      case True
      then obtain msg where e: "e = ThreeDeeParseError msg"
        by (cases e) (simp_all add: is_parse_error_def)
      have t1: "try_ObjModel pyfloat f = (Inr None, f1)"
        using first Inl True by simp
      have "ObjModel pyfloat f1 = (Inl (ThreeDeeParseError ''Empyt model.''), f1)"
        using assms(2) unfolding Inl e by (rule ObjModel_fails_again(2))
      then have t2: "try_ObjModel pyfloat f1 = (Inr None, f1)"
        by (simp add: try_ObjModel_def)
      note t3 = try_BinaryStlModel_outcome [OF assms(3)]
      show ?thesis
      proof (cases "hint = Some ''obj''")
        case True
        with t1 Inl \<open>is_parse_error e\<close> show ?thesis
          by (simp add: auto_detect_def falsy_def)
      next
        case False
        with assms(1) have h: "hint = Some ''stl'' \<or> falsy hint" by simp
        have "auto_detect pyfloat cap f hint =
           (case try_BinaryStlModel cap f1 of
              (Inl e, f2) \<Rightarrow> (Inl e, f2)
            | (Inr (Some m), f2) \<Rightarrow> (Inr m, f2)
            | (Inr None, f2) \<Rightarrow>
                (Inl (ThreeDeeParseError ''Could not successfully parse the model :(''), f2))"
          using h t1 t2 by (auto simp: auto_detect_def stl_candidates_def falsy_def)
        then show ?thesis
          using Inl \<open>is_parse_error e\<close> False
          by (simp add: try_BinaryStlModel_outcome [OF assms(3)] split: sum.splits)
      qed
    qed
  qed
qed

theorem auto_detect_catches_and_propagates_witness:
  "auto_detect py_float 1000 \<lparr>data = ''v 1 two 3\<newline>'', pos = 0\<rparr> None =
     (Inl ValueError, \<lparr>data = ''v 1 two 3\<newline>'', pos = 10\<rparr>)
   \<and> auto_detect py_float 1000 \<lparr>data = ''# no vertex\<newline>'', pos = 0\<rparr> (Some ''obj'') =
     (Inl (ThreeDeeParseError ''Could not successfully parse the model :(''),
      \<lparr>data = ''# no vertex\<newline>'', pos = 12\<rparr>)
   \<and> auto_detect py_float 1000 \<lparr>data = ''# no vertex\<newline>'', pos = 0\<rparr> (Some ''stl'') =
     (Inl StructError, \<lparr>data = ''# no vertex\<newline>'', pos = 80\<rparr>)
   \<and> auto_detect py_float 1000 \<lparr>data = ''# exported by a program that writes a long comment line in front of the vertex data\<newline>'', pos = 0\<rparr> (Some ''stl'') =
     (Inl (ThreeDeeParseError ''Could not successfully parse the model :(''), \<lparr>data = ''# exported by a program that writes a long comment line in front of the vertex data\<newline>'', pos = 84\<rparr>)"
proof -
  have h1: "ObjModel py_float \<lparr>data = ''v 1 two 3\<newline>'', pos = 0\<rparr> =
     (Inl ValueError, \<lparr>data = ''v 1 two 3\<newline>'', pos = 10\<rparr>)"
    by code_simp
  have b1: "BinaryStlModel 1000 \<lparr>data = ''v 1 two 3\<newline>'', pos = 10\<rparr> =
     (Inl StructError, \<lparr>data = ''v 1 two 3\<newline>'', pos = 80\<rparr>)"
    by code_simp
  have h2: "ObjModel py_float \<lparr>data = ''# no vertex\<newline>'', pos = 0\<rparr> =
     (Inl (ThreeDeeParseError ''Empyt model.''), \<lparr>data = ''# no vertex\<newline>'', pos = 12\<rparr>)"
    by code_simp
  have b2: "BinaryStlModel 1000 \<lparr>data = ''# no vertex\<newline>'', pos = 12\<rparr> =
     (Inl StructError, \<lparr>data = ''# no vertex\<newline>'', pos = 80\<rparr>)"
    by code_simp
  have h3: "ObjModel py_float \<lparr>data = ''# exported by a program that writes a long comment line in front of the vertex data\<newline>'', pos = 0\<rparr> = (Inl (ThreeDeeParseError ''Empyt model.''), \<lparr>data = ''# exported by a program that writes a long comment line in front of the vertex data\<newline>'', pos = 84\<rparr>)"
    by code_simp
  have len: "84 \<le> length (data \<lparr>data = ''# exported by a program that writes a long comment line in front of the vertex data\<newline>'', pos = 84\<rparr>)" by simp
  have cnt: "1000 < le_value (take 4 (drop 80 (data \<lparr>data = ''# exported by a program that writes a long comment line in front of the vertex data\<newline>'', pos = 84\<rparr>)))"
    by (simp add: le_value_def)
  have b3: "BinaryStlModel 1000 \<lparr>data = ''# exported by a program that writes a long comment line in front of the vertex data\<newline>'', pos = 84\<rparr> = (Inl MemoryError, \<lparr>data = ''# exported by a program that writes a long comment line in front of the vertex data\<newline>'', pos = 84\<rparr>)"
    using BinaryStlModel_MemoryError [OF len cnt] by simp
  have g: "falsy None" by (simp add: falsy_def)
  from auto_detect_catches_and_propagates [of None, OF _ h1 b1] g
  have 1: "auto_detect py_float 1000 \<lparr>data = ''v 1 two 3\<newline>'', pos = 0\<rparr> None =
     (Inl ValueError, \<lparr>data = ''v 1 two 3\<newline>'', pos = 10\<rparr>)"
    by (simp add: is_parse_error_def)
  from auto_detect_catches_and_propagates [of "Some ''obj''", OF _ h2 b2]
  have 2: "auto_detect py_float 1000 \<lparr>data = ''# no vertex\<newline>'', pos = 0\<rparr> (Some ''obj'') =
     (Inl (ThreeDeeParseError ''Could not successfully parse the model :(''),
      \<lparr>data = ''# no vertex\<newline>'', pos = 12\<rparr>)"
    by (simp add: is_parse_error_def)
  from auto_detect_catches_and_propagates [of "Some ''stl''", OF _ h2 b2]
  have 3: "auto_detect py_float 1000 \<lparr>data = ''# no vertex\<newline>'', pos = 0\<rparr> (Some ''stl'') =
     (Inl StructError, \<lparr>data = ''# no vertex\<newline>'', pos = 80\<rparr>)"
    by (simp add: is_parse_error_def)
  from auto_detect_catches_and_propagates [of "Some ''stl''", OF _ h3 b3]
  have 4: "auto_detect py_float 1000 \<lparr>data = ''# exported by a program that writes a long comment line in front of the vertex data\<newline>'', pos = 0\<rparr> (Some ''stl'') =
     (Inl (ThreeDeeParseError ''Could not successfully parse the model :(''), \<lparr>data = ''# exported by a program that writes a long comment line in front of the vertex data\<newline>'', pos = 84\<rparr>)"
    by (simp add: is_parse_error_def)
  from 1 2 3 4 show ?thesis by simp
qed

end
